theory Spec2Isabelle
  imports Main "HOL-Library.Word"
begin

section \<open>The template plugin's compiled model\<close>

text \<open>
  A shallow embedding of \<^verbatim>\<open>src/plugins/template/src/compiled_model.cpp\<close>.
  Every method of \<^verbatim>\<open>ov::template_plugin::CompiledModel\<close> becomes a function on a
  record of the object's fields; a thrown exception is the \<open>Inl\<close> branch of a sum.
  The collaborators whose code lives elsewhere (the transformation pipeline, the
  serialisation pass, the stream executor's key list) are arguments of the functions that
  call them. The two factory methods for inference requests only wrap the object in
  request objects defined elsewhere and are not part of this development.
\<close>

subsection \<open>Data\<close>

type_synonym byte = "8 word"
type_synonym bytes = "byte list"

text \<open>
  \<^verbatim>\<open>ov::Model\<close>: the only member the file reads is the friendly name; the graph
  itself is opaque here.
\<close>

record 'g Model =
  friendly_name :: string
  graph :: 'g

definition get_friendly_name :: "'g Model \<Rightarrow> string" where
  "get_friendly_name model = friendly_name model"

text \<open>
  \<^verbatim>\<open>ov::IPlugin\<close>: the file only asks it for the device name.
\<close>

record Plugin =
  device_name :: string

definition get_device_name :: "Plugin \<Rightarrow> string" where
  "get_device_name plugin = device_name plugin"

text \<open>
  \<^verbatim>\<open>ov::threading::IStreamsExecutor::Config\<close> and the plugin's
  \<^verbatim>\<open>Configuration\<close>. The fields \<open>device_id\<close>, \<open>disable_transformations\<close> and
  \<open>streams_executor_config._streams\<close> (here \<open>streams\<close>) are the ones the file reads;
  both integers are C \<^verbatim>\<open>int\<close>s, read with \<open>sint\<close>. The fields
  \<open>enable_profiling_flag\<close> and \<open>perf_mode\<close> hold the remaining options the specification
  lists for a configuration.
\<close>

record StreamsExecutorConfig =
  streams :: "32 word"

datatype PerfMode = Latency | Throughput

record Configuration =
  device_id :: "32 word"
  streams_executor_config :: StreamsExecutorConfig
  enable_profiling_flag :: bool
  disable_transformations :: bool
  perf_mode :: PerfMode

text \<open>
  \<^verbatim>\<open>ov::PropertyName\<close>: a key together with its mutability.
\<close>

datatype PropertyMutability = RO | RW

type_synonym PropertyName = "string \<times> PropertyMutability"

text \<open>
  \<^verbatim>\<open>ov::Any\<close>, restricted to the kinds of value \<open>get_property\<close> returns.
\<close>

datatype Any =
    Any_strings "string list"
  | Any_string string
  | Any_bool bool
  | Any_uint "32 word"
  | Any_int "32 word"
  | Any_properties "PropertyName list"
  | Any_perf_mode PerfMode

text \<open>
  What a call can throw. \<open>Exception\<close> is \<^verbatim>\<open>ov::Exception\<close> as raised by
  \<^verbatim>\<open>OPENVINO_THROW\<close>, carrying the explanation the macro is given;
  \<open>NotImplemented\<close> is what \<^verbatim>\<open>OPENVINO_NOT_IMPLEMENTED\<close> raises. \<open>NotFound\<close> and
  \<open>DeserializationError\<close> are the failure kinds the specification gives to the
  configuration's lookup and to import.
\<close>

datatype error =
    Exception string
  | NotImplemented
  | NotFound
  | DeserializationError

text \<open>
  What the transformation pipeline can throw, classified the way the constructor's three
  handlers see it: a legacy \<^verbatim>\<open>InferenceEngine::Exception\<close>, any other
  \<^verbatim>\<open>std::exception\<close> (each with its \<^verbatim>\<open>what()\<close>), or anything else.
\<close>

datatype thrown =
    IE_Exception string
  | Std_exception string
  | Unknown_throw

record 'g CompiledModel =
  m_plugin :: Plugin
  m_cfg :: Configuration
  m_model :: "'g Model"
  m_loaded_from_cache :: bool

subsection \<open>Property keys\<close>

text \<open>
  The headers \<^verbatim>\<open>openvino/runtime/properties.hpp\<close> and \<^verbatim>\<open>ie_plugin_config.hpp\<close>,
  which declare the key constants and the \<^verbatim>\<open>METRIC_KEY\<close> macros, are outside the
  sources. Each key below is the string the specification uses for it.
\<close>

text \<open>Modelled from the spec: the read-only key \<^verbatim>\<open>ov::model_name\<close>.\<close>

definition model_name :: string where
  "model_name = ''model_name''"

text \<open>Modelled from the spec: the read-only key \<^verbatim>\<open>ov::supported_properties\<close>.\<close>

definition supported_properties :: string where
  "supported_properties = ''supported_properties''"

text \<open>Modelled from the spec: the read-only key \<^verbatim>\<open>ov::execution_devices\<close>.\<close>

definition execution_devices :: string where
  "execution_devices = ''execution_devices''"

text \<open>Modelled from the spec: the read-only key \<^verbatim>\<open>ov::loaded_from_cache\<close>.\<close>

definition loaded_from_cache :: string where
  "loaded_from_cache = ''loaded_from_cache''"

text \<open>
  Modelled from the spec: the read-only key \<^verbatim>\<open>ov::optimal_number_of_infer_requests\<close>.
\<close>

definition optimal_number_of_infer_requests :: string where
  "optimal_number_of_infer_requests = ''optimal_number_of_infer_requests''"

text \<open>Modelled from the spec: the read-write key \<^verbatim>\<open>ov::device::id\<close>.\<close>

definition device_id_key :: string where
  "device_id_key = ''device_id''"

text \<open>Modelled from the spec: the read-write key \<^verbatim>\<open>ov::enable_profiling\<close>.\<close>

definition enable_profiling :: string where
  "enable_profiling = ''enable_profiling''"

text \<open>
  Modelled from the spec: \<^verbatim>\<open>METRIC_KEY(SUPPORTED_METRICS)\<close> and
  \<^verbatim>\<open>EXEC_NETWORK_METRIC_KEY(SUPPORTED_METRICS)\<close>, the legacy metric key named by the
  macro's argument.
\<close>

definition SUPPORTED_METRICS :: string where
  "SUPPORTED_METRICS = ''SUPPORTED_METRICS''"

text \<open>
  Modelled from the spec: \<^verbatim>\<open>METRIC_KEY(SUPPORTED_CONFIG_KEYS)\<close> and
  \<^verbatim>\<open>EXEC_NETWORK_METRIC_KEY(SUPPORTED_CONFIG_KEYS)\<close>, likewise.
\<close>

definition SUPPORTED_CONFIG_KEYS :: string where
  "SUPPORTED_CONFIG_KEYS = ''SUPPORTED_CONFIG_KEYS''"

text \<open>Modelled from the spec: the configuration option \<open>num_streams\<close>.\<close>

definition num_streams :: string where
  "num_streams = ''num_streams''"

text \<open>Modelled from the spec: the configuration option \<open>disable_transformations\<close>.\<close>

definition disable_transformations_key :: string where
  "disable_transformations_key = ''disable_transformations''"

text \<open>Modelled from the spec: the configuration option \<open>perf_mode\<close>.\<close>

definition perf_mode_key :: string where
  "perf_mode_key = ''perf_mode''"

subsection \<open>The configuration's lookup\<close>

text \<open>
  Modelled from the spec: the options a configuration recognises, \<open>device_id\<close>,
  \<open>num_streams\<close>, \<open>enable_profiling\<close>, \<open>disable_transformations\<close> and \<open>perf_mode\<close>.
\<close>

definition config_keys :: "string list" where
  "config_keys =
     [device_id_key, num_streams, enable_profiling, disable_transformations_key, perf_mode_key]"

text \<open>
  Modelled from the spec: \<^verbatim>\<open>Configuration::Get\<close>, which is defined in another file.
  The specification describes the configuration as a mapping of the recognised options
  to their values, whose lookup fails with \<open>NotFound\<close> for every other key.
\<close>

definition Get :: "Configuration \<Rightarrow> string \<Rightarrow> error + Any" where
  "Get cfg name =
     (if name = device_id_key then Inr (Any_int (device_id cfg))
      else if name = num_streams then Inr (Any_int (streams (streams_executor_config cfg)))
      else if name = enable_profiling then Inr (Any_bool (enable_profiling_flag cfg))
      else if name = disable_transformations_key then Inr (Any_bool (disable_transformations cfg))
      else if name = perf_mode_key then Inr (Any_perf_mode (perf_mode cfg))
      else Inl NotFound)"

subsection \<open>Compilation\<close>

text \<open>
  \<^verbatim>\<open>compile_model\<close>: returns at once when the configuration disables the
  transformations, and otherwise runs \<^verbatim>\<open>transform_model\<close>, which rewrites the model
  in place or throws. The transformer is the first argument.
\<close>

definition compile_model ::
  "('g Model \<Rightarrow> thrown + 'g Model) \<Rightarrow> Configuration \<Rightarrow> 'g Model \<Rightarrow> thrown + 'g Model" where
  "compile_model transform_model cfg model =
     (if disable_transformations cfg then Inr model
      else transform_model model)"

text \<open>
  The constructor stores its arguments, then compiles inside a \<^verbatim>\<open>try\<close> block whose
  three handlers rethrow through \<^verbatim>\<open>OPENVINO_THROW\<close>. A throwing constructor leaves
  no object behind. The remote context and the task executor are only handed on to the
  base class and play no part in what this file computes, so they are left out; the
  compiled graph is what \<open>m_model\<close> refers to after the in-place transformation.
\<close>

definition CompiledModel_ctor ::
  "('g Model \<Rightarrow> thrown + 'g Model) \<Rightarrow> 'g Model \<Rightarrow> Plugin \<Rightarrow> Configuration \<Rightarrow> bool
     \<Rightarrow> error + 'g CompiledModel" where
  "CompiledModel_ctor transform_model model plugin cfg from_cache =
     (case compile_model transform_model cfg model of
        Inl (IE_Exception what) \<Rightarrow> Inl (Exception what)
      | Inl (Std_exception what) \<Rightarrow>
          Inl (Exception (''Standard exception from compilation library: '' @ what))
      | Inl Unknown_throw \<Rightarrow> Inl (Exception ''Generic exception is thrown'')
      | Inr model' \<Rightarrow>
          Inr \<lparr>m_plugin = plugin, m_cfg = cfg, m_model = model',
               m_loaded_from_cache = from_cache\<rparr>)"

subsection \<open>Properties\<close>

text \<open>
  \<^verbatim>\<open>set_property\<close> throws before touching anything: the result is the failure and
  the object as it was.
\<close>

definition set_property ::
  "'g CompiledModel \<Rightarrow> (string \<times> Any) list \<Rightarrow> (error + unit) \<times> 'g CompiledModel" where
  "set_property cm properties = (Inl NotImplemented, cm)"

definition get_runtime_model :: "'g CompiledModel \<Rightarrow> 'g Model" where
  "get_runtime_model cm = m_model cm"

text \<open>The four lambdas at the top of \<^verbatim>\<open>get_property\<close>.\<close>

definition add_ro_properties :: "string \<Rightarrow> PropertyName list \<Rightarrow> PropertyName list" where
  "add_ro_properties name properties = properties @ [(name, RO)]"

definition default_ro_properties :: "PropertyName list" where
  "default_ro_properties =
     [(model_name, RO), (supported_properties, RO), (execution_devices, RO),
      (loaded_from_cache, RO), (optimal_number_of_infer_requests, RO)]"

definition default_rw_properties :: "PropertyName list" where
  "default_rw_properties = [(device_id_key, RW), (enable_profiling, RW)]"

definition to_string_vector :: "PropertyName list \<Rightarrow> string list" where
  "to_string_vector properties = map fst properties"

text \<open>
  \<^verbatim>\<open>std::to_string(int)\<close>: an optional minus sign and the decimal digits, most
  significant first.
\<close>

definition digit_char :: "nat \<Rightarrow> char" where
  "digit_char d = ''0123456789'' ! d"

function to_string_nat :: "nat \<Rightarrow> string" where
  "to_string_nat n =
     (if n < 10 then [digit_char n] else to_string_nat (n div 10) @ [digit_char (n mod 10)])"
  by pat_completeness auto
termination
  by (relation "measure id") auto

declare to_string_nat.simps [simp del]

definition to_string :: "int \<Rightarrow> string" where
  "to_string i = (if i < 0 then CHR ''-'' # to_string_nat (nat (- i)) else to_string_nat (nat i))"

text \<open>
  Reading a decimal numeral back, to say what the digits of \<open>to_string\<close> denote.
\<close>

definition digit_val :: "char \<Rightarrow> nat" where
  "digit_val c = of_char c - 48"

definition decimal_val :: "string \<Rightarrow> nat" where
  "decimal_val s = foldl (\<lambda>acc c. 10 * acc + digit_val c) 0 s"

definition decimal_int :: "string \<Rightarrow> int" where
  "decimal_int s =
     (if s \<noteq> [] \<and> hd s = CHR ''-'' then - int (decimal_val (tl s)) else int (decimal_val s))"

text \<open>
  \<^verbatim>\<open>get_property\<close>. The first argument is the key list that a default
  \<^verbatim>\<open>IStreamsExecutor::Config\<close> reports as its supported properties; it is defined
  outside this file. In the second branch each of those keys is appended as a
  \<^verbatim>\<open>PropertyName\<close> built from a string, whose mutability defaults to read-write.
\<close>

definition get_property :: "string list \<Rightarrow> 'g CompiledModel \<Rightarrow> string \<Rightarrow> error + Any" where
  "get_property streamExecutorConfigKeys cm name =
     (if SUPPORTED_METRICS = name then
        Inr (Any_strings (to_string_vector
               (add_ro_properties SUPPORTED_CONFIG_KEYS
                 (add_ro_properties SUPPORTED_METRICS default_ro_properties))))
      else if SUPPORTED_CONFIG_KEYS = name then
        Inr (Any_strings (to_string_vector
               (default_rw_properties @ map (\<lambda>configKey. (configKey, RW)) streamExecutorConfigKeys)))
      else if model_name = name then
        Inr (Any_string (get_friendly_name (m_model cm)))
      else if loaded_from_cache = name then
        Inr (Any_bool (m_loaded_from_cache cm))
      else if execution_devices = name then
        Inr (Any_strings
               [get_device_name (m_plugin cm) @ ''.'' @ to_string (sint (device_id (m_cfg cm)))])
      else if optimal_number_of_infer_requests = name then
        Inr (Any_uint (streams (streams_executor_config (m_cfg cm))))
      else if supported_properties = name then
        Inr (Any_properties (default_ro_properties @ default_rw_properties))
      else Get (m_cfg cm) name)"

subsection \<open>Export\<close>

text \<open>
  The eight bytes of a \<^verbatim>\<open>std::uint64_t\<close> as they lie in memory on a little-endian
  host, which is what \<^verbatim>\<open>write(reinterpret_cast<char*>(&dataSize), sizeof(dataSize))\<close>
  copies to the stream.
\<close>

fun le_bytes :: "nat \<Rightarrow> nat \<Rightarrow> bytes" where
  "le_bytes 0 n = []"
| "le_bytes (Suc k) n = of_nat (n mod 256) # le_bytes k (n div 256)"

definition u64_bytes :: "64 word \<Rightarrow> bytes" where
  "u64_bytes w = le_bytes 8 (unat w)"

text \<open>
  Reading a little-endian field back: the value a reader on the same host finds in the
  eight bytes.
\<close>

fun le_val :: "bytes \<Rightarrow> nat" where
  "le_val [] = 0"
| "le_val (b # bs) = unat b + 256 * le_val bs"

definition bytes_u64 :: "bytes \<Rightarrow> 64 word" where
  "bytes_u64 bs = of_nat (le_val bs)"

text \<open>
  \<^verbatim>\<open>std::ostream::write(buf, n)\<close> on a stream that accepts every byte: the first
  \<open>n\<close> bytes of the buffer are appended to what the stream already holds.
\<close>

definition ostream_write :: "bytes \<Rightarrow> bytes \<Rightarrow> 64 word \<Rightarrow> bytes" where
  "ostream_write model_stream buf n = model_stream @ take (unat n) buf"

text \<open>
  \<^verbatim>\<open>export_model\<close>. The serialisation pass is the first argument: it yields the two
  string streams' contents (\<open>xmlFile\<close>, \<open>binFile\<close>) or throws, in which case nothing has
  been written. The \<^verbatim>\<open>static_cast<std::uint64_t>\<close> of a size is \<open>of_nat\<close>.
\<close>

definition export_model ::
  "('g Model \<Rightarrow> error + bytes \<times> bytes) \<Rightarrow> 'g CompiledModel \<Rightarrow> bytes \<Rightarrow> error + bytes" where
  "export_model serialize cm model_stream =
     (case serialize (m_model cm) of
        Inl e \<Rightarrow> Inl e
      | Inr (xmlFile, binFile) \<Rightarrow>
          (let dataSize = (of_nat (length xmlFile) :: 64 word);
               s1 = ostream_write model_stream (u64_bytes dataSize) 8;
               s2 = ostream_write s1 xmlFile dataSize;
               dataSize' = (of_nat (length binFile) :: 64 word);
               s3 = ostream_write s2 (u64_bytes dataSize') 8;
               s4 = ostream_write s3 binFile dataSize'
           in Inr s4))"

subsection \<open>Import\<close>

text \<open>
  Modelled from the spec: one length-prefixed section of the framing that
  \<^verbatim>\<open>Plugin::import_model\<close> reads. A stream too short for the length field, or a
  length field that exceeds what remains, is a \<open>DeserializationError\<close>.
\<close>

definition read_section :: "bytes \<Rightarrow> error + bytes \<times> bytes" where
  "read_section source =
     (if length source < 8 then Inl DeserializationError
      else
        let dataSize = unat (bytes_u64 (take 8 source)); rest = drop 8 source
        in if length rest < dataSize then Inl DeserializationError
           else Inr (take dataSize rest, drop dataSize rest))"

text \<open>
  Modelled from the spec: \<^verbatim>\<open>Plugin::import_model\<close>, which is defined in another
  file. The specification has it read the same two-part framing, reconstruct a graph,
  mark the result \<open>loaded_from_cache = true\<close> and apply no transformation. The reader
  that turns the two payloads back into a model is the first argument.
\<close>

definition import_model ::
  "(bytes \<Rightarrow> bytes \<Rightarrow> error + 'g Model) \<Rightarrow> Plugin \<Rightarrow> bytes \<Rightarrow> Configuration
     \<Rightarrow> error + 'g CompiledModel" where
  "import_model read_model plugin source cfg =
     (case read_section source of
        Inl e \<Rightarrow> Inl e
      | Inr (xmlString, rest) \<Rightarrow>
          (case read_section rest of
             Inl e \<Rightarrow> Inl e
           | Inr (weights, rest') \<Rightarrow>
               (case read_model xmlString weights of
                  Inl e \<Rightarrow> Inl e
                | Inr ov_model \<Rightarrow>
                    Inr \<lparr>m_plugin = plugin, m_cfg = cfg, m_model = ov_model,
                         m_loaded_from_cache = True\<rparr>)))"

section \<open>Verification\<close>

lemmas key_defs =
  model_name_def supported_properties_def execution_devices_def loaded_from_cache_def
  optimal_number_of_infer_requests_def device_id_key_def enable_profiling_def
  SUPPORTED_METRICS_def SUPPORTED_CONFIG_KEYS_def num_streams_def
  disable_transformations_key_def perf_mode_key_def

subsection \<open>Decimal numerals\<close>

lemma digit_cases: "d < 10 \<Longrightarrow> d \<in> {0, 1, 2, 3, 4, 5, 6, 7, 8, 9 :: nat}"
  by auto

lemma digit_val_digit_char: "d < 10 \<Longrightarrow> digit_val (digit_char d) = d"
  using digit_cases [of d] by (auto simp: digit_val_def digit_char_def)

lemma digit_char_not_minus: "d < 10 \<Longrightarrow> digit_char d \<noteq> CHR ''-''"
  using digit_cases [of d] by (auto simp: digit_char_def)

lemma decimal_val_snoc: "decimal_val (ds @ [c]) = 10 * decimal_val ds + digit_val c"
  by (simp add: decimal_val_def)

lemma decimal_val_to_string_nat: "decimal_val (to_string_nat n) = n"
proof (induction n rule: to_string_nat.induct)
  case (1 n)
  show ?case
  proof (cases "n < 10")
    case True
    then show ?thesis
      by (simp add: to_string_nat.simps [of n] decimal_val_def digit_val_digit_char)
  next
    case False
    with "1" have "decimal_val (to_string_nat (n div 10)) = n div 10"
      by simp
    with False show ?thesis
      by (simp add: to_string_nat.simps [of n] decimal_val_snoc digit_val_digit_char)
  qed
qed

lemma to_string_nat_head: "to_string_nat n \<noteq> [] \<and> hd (to_string_nat n) \<noteq> CHR ''-''"
proof (induction n rule: to_string_nat.induct)
  case (1 n)
  show ?case
  proof (cases "n < 10")
    case True
    then show ?thesis
      by (simp add: to_string_nat.simps [of n] digit_char_not_minus)
  next
    case False
    with "1" have "to_string_nat (n div 10) \<noteq> [] \<and> hd (to_string_nat (n div 10)) \<noteq> CHR ''-''"
      by simp
    with False show ?thesis
      by (simp add: to_string_nat.simps [of n])
  qed
qed

lemma decimal_int_to_string: "decimal_int (to_string i) = i"
  using to_string_nat_head [of "nat i"]
  by (simp add: decimal_int_def to_string_def decimal_val_to_string_nat)

subsection \<open>The length field\<close>

lemma le_bytes_length: "length (le_bytes k n) = k"
  by (induction k arbitrary: n) simp_all

lemma le_val_le_bytes: "le_val (le_bytes k n) = n mod 256 ^ k"
proof (induction k arbitrary: n)
  case 0
  show ?case by simp
next
  case (Suc k)
  have "unat (of_nat (n mod 256) :: byte) = n mod 256"
    by (simp add: unat_of_nat)
  then show ?case
    using Suc by (simp add: mod_mult2_eq)
qed

lemma u64_bytes_length: "length (u64_bytes w) = 8"
  by (simp add: u64_bytes_def le_bytes_length)

lemma bytes_u64_u64_bytes: "bytes_u64 (u64_bytes w) = w"
proof -
  have "unat w < 256 ^ 8"
    using unsigned_less [of w, where 'a = nat] by simp
  then show ?thesis
    by (simp add: bytes_u64_def u64_bytes_def le_val_le_bytes)
qed

lemma unat_size64: "n < 2 ^ 64 \<Longrightarrow> unat (of_nat n :: 64 word) = n"
  by (simp add: unat_of_nat)

lemma le_bytes_nth: "i < k \<Longrightarrow> le_bytes k n ! i = of_nat (n div 256 ^ i mod 256)"
proof (induction k arbitrary: n i)
  case 0
  then show ?case by simp
next
  case (Suc k)
  show ?case
  proof (cases i)
    case 0
    then show ?thesis by simp
  next
    case (Suc j)
    with Suc.prems have "j < k" by simp
    with Suc.IH [of j "n div 256"] Suc show ?thesis
      by (simp add: div_mult2_eq)
  qed
qed

text \<open>
  Byte \<open>i\<close> of the length field is bits \<open>8i\<close> to \<open>8i + 7\<close> of the value: the least
  significant byte comes first.
\<close>

lemma u64_bytes_nth:
  assumes "i < 8"
  shows "u64_bytes w ! i = ucast (drop_bit (8 * i) w)"
proof -
  have a: "unat (drop_bit (8 * i) w) = unat w div 2 ^ (8 * i)"
    using unat_drop_bit_eq [of "8 * i" w] drop_bit_eq_div [of "8 * i" "unat w"]
    by (simp only:)
  have b: "(2::nat) ^ (8 * i) = 256 ^ i"
    by (simp add: power_mult)
  have c: "unat (ucast x :: byte) = unat x mod 256" for x :: "64 word"
    by (simp add: unsigned_ucast_eq take_bit_eq_mod)
  have "unat (ucast (drop_bit (8 * i) w) :: byte) = unat w div 256 ^ i mod 256"
    by (simp only: c a b)
  moreover have "unat (of_nat (unat w div 256 ^ i mod 256) :: byte) = unat w div 256 ^ i mod 256"
    by (simp add: unat_of_nat)
  ultimately have "(of_nat (unat w div 256 ^ i mod 256) :: byte) = ucast (drop_bit (8 * i) w)"
    by (simp only: word_unat_eq_iff)
  with assms show ?thesis
    by (simp add: u64_bytes_def le_bytes_nth)
qed

subsection \<open>Framing\<close>

lemma export_model_frame:
  assumes "serialize (m_model cm) = Inr (xmlFile, binFile)"
    and "length xmlFile < 2 ^ 64" and "length binFile < 2 ^ 64"
  shows "export_model serialize cm model_stream
           = Inr (model_stream @ u64_bytes (of_nat (length xmlFile)) @ xmlFile
                    @ u64_bytes (of_nat (length binFile)) @ binFile)"
  using assms
  by (simp add: export_model_def ostream_write_def Let_def u64_bytes_length unat_size64)

lemma export_model_serialize_throws:
  "serialize (m_model cm) = Inl e \<Longrightarrow> export_model serialize cm model_stream = Inl e"
  by (simp add: export_model_def)

lemma read_section_frame:
  assumes "length payload < 2 ^ 64"
  shows "read_section (u64_bytes (of_nat (length payload)) @ payload @ rest) = Inr (payload, rest)"
  using assms
  by (simp add: read_section_def Let_def u64_bytes_length bytes_u64_u64_bytes unat_size64)

lemma import_model_frame:
  assumes "length xmlFile < 2 ^ 64" and "length binFile < 2 ^ 64"
  shows "import_model read_model plugin
           (u64_bytes (of_nat (length xmlFile)) @ xmlFile
              @ u64_bytes (of_nat (length binFile)) @ binFile) cfg
         = (case read_model xmlFile binFile of
              Inl e \<Rightarrow> Inl e
            | Inr ov_model \<Rightarrow>
                Inr \<lparr>m_plugin = plugin, m_cfg = cfg, m_model = ov_model,
                     m_loaded_from_cache = True\<rparr>)"
proof -
  have r1: "read_section (u64_bytes (of_nat (length xmlFile)) @ xmlFile
                @ u64_bytes (of_nat (length binFile)) @ binFile)
              = Inr (xmlFile, u64_bytes (of_nat (length binFile)) @ binFile)"
    using read_section_frame [OF assms(1)] by simp
  have r2: "read_section (u64_bytes (of_nat (length binFile)) @ binFile) = Inr (binFile, [])"
    using read_section_frame [OF assms(2), of "[]"] by simp
  show ?thesis
    by (simp add: import_model_def r1 r2)
qed

text \<open>
  C1. When the serialisation pass yields the structural description \<open>xmlFile\<close> and the
  weights blob \<open>binFile\<close> (each shorter than \<open>2^64\<close> bytes, as every \<^verbatim>\<open>std::string\<close>
  is), \<open>export_model\<close> appends to the stream exactly: the eight bytes of the length of
  \<open>xmlFile\<close>, the bytes of \<open>xmlFile\<close>, the eight bytes of the length of \<open>binFile\<close>, the
  bytes of \<open>binFile\<close>, and nothing else. Each length field is eight bytes long and reads
  back as the length of its payload.
\<close>

theorem export_model_framing:
  assumes "serialize (m_model cm) = Inr (xmlFile, binFile)"
    and "length xmlFile < 2 ^ 64" and "length binFile < 2 ^ 64"
  shows "export_model serialize cm model_stream
           = Inr (model_stream @ u64_bytes (of_nat (length xmlFile)) @ xmlFile
                    @ u64_bytes (of_nat (length binFile)) @ binFile)
         \<and> length (u64_bytes (of_nat (length xmlFile))) = 8
         \<and> unat (bytes_u64 (u64_bytes (of_nat (length xmlFile)))) = length xmlFile
         \<and> length (u64_bytes (of_nat (length binFile))) = 8
         \<and> unat (bytes_u64 (u64_bytes (of_nat (length binFile)))) = length binFile"
  using assms
  by (simp add: export_model_frame u64_bytes_length bytes_u64_u64_bytes unat_size64)

theorem export_model_framing_witness:
  "export_model (\<lambda>m. Inr (map of_nat (graph m), [7]))
      \<lparr>m_plugin = \<lparr>device_name = ''TEMPLATE''\<rparr>,
       m_cfg = \<lparr>device_id = 0, streams_executor_config = \<lparr>streams = 1\<rparr>,
                enable_profiling_flag = False, disable_transformations = False,
                perf_mode = Latency\<rparr>,
       m_model = \<lparr>friendly_name = ''net'', graph = [60::nat, 47, 62]\<rparr>,
       m_loaded_from_cache = False\<rparr> []
     = Inr [3, 0, 0, 0, 0, 0, 0, 0, 60, 47, 62, 1, 0, 0, 0, 0, 0, 0, 0, 7]"
proof -
  let ?ser = "\<lambda>m :: nat list Model. (Inr (map of_nat (graph m), [7]) :: error + bytes \<times> bytes)"
  let ?cm = "\<lparr>m_plugin = \<lparr>device_name = ''TEMPLATE''\<rparr>,
       m_cfg = \<lparr>device_id = 0, streams_executor_config = \<lparr>streams = 1\<rparr>,
                enable_profiling_flag = False, disable_transformations = False,
                perf_mode = Latency\<rparr>,
       m_model = \<lparr>friendly_name = ''net'', graph = [60::nat, 47, 62]\<rparr>,
       m_loaded_from_cache = False\<rparr>"
  have s: "?ser (m_model ?cm) = Inr ([60, 47, 62], [7])"
    by simp
  have l: "length [60, 47, 62 :: byte] < 2 ^ 64" "length [7 :: byte] < 2 ^ 64"
    by simp_all
  have u: "u64_bytes 3 = [3, 0, 0, 0, 0, 0, 0, 0]" "u64_bytes 1 = [1, 0, 0, 0, 0, 0, 0, 0]"
    by code_simp+
  from export_model_framing [where serialize = ?ser and cm = ?cm and model_stream = "[]",
         OF s l] u
  show ?thesis
    by simp
qed

subsection \<open>Round trip\<close>

text \<open>
  C3. Let the serialisation pass turn the graph of a compiled model \<open>M\<close> into two
  payloads. Then exporting \<open>M\<close> to an empty stream succeeds, and importing the exported
  bytes hands exactly these two payloads to the reader, whatever the reader is. If
  moreover the reader inverts the serialisation pass (it rebuilds every model from the
  payloads the pass made of it), the import succeeds under any configuration, the
  imported model's graph is \<open>M\<close>'s graph, so it computes the same outputs as \<open>M\<close>'s for
  all inputs under any inference function, and its \<open>loaded_from_cache\<close> property reads
  true. Finally, a model that the constructor returns answers \<open>loaded_from_cache\<close> with
  the flag the constructor was given.
\<close>

theorem import_export_round_trip:
  "(serialize (m_model M) = Inr (xmlFile, binFile)
      \<and> length xmlFile < 2 ^ 64 \<and> length binFile < 2 ^ 64
    \<longrightarrow> (\<exists>exported.
            export_model serialize M [] = Inr exported
            \<and> import_model read_model plugin exported cfg
                = (case read_model xmlFile binFile of
                     Inl e \<Rightarrow> Inl e
                   | Inr ov_model \<Rightarrow>
                       Inr \<lparr>m_plugin = plugin, m_cfg = cfg, m_model = ov_model,
                            m_loaded_from_cache = True\<rparr>)))
   \<and> (serialize (m_model M) = Inr (xmlFile, binFile)
      \<and> length xmlFile < 2 ^ 64 \<and> length binFile < 2 ^ 64
      \<and> (\<forall>m x w. serialize m = Inr (x, w) \<longrightarrow> read_model x w = Inr m)
    \<longrightarrow> (\<exists>exported M'.
            export_model serialize M [] = Inr exported
            \<and> import_model read_model plugin exported cfg = Inr M'
            \<and> get_runtime_model M' = get_runtime_model M
            \<and> (\<forall>inputs. infer (get_runtime_model M') inputs = infer (get_runtime_model M) inputs)
            \<and> m_cfg M' = cfg
            \<and> get_property keys M' loaded_from_cache = Inr (Any_bool True)))
   \<and> (CompiledModel_ctor tm model plugin' cfg' from_cache = Inr cm
    \<longrightarrow> get_property keys cm loaded_from_cache = Inr (Any_bool from_cache))"
proof (intro conjI impI)
  assume a: "serialize (m_model M) = Inr (xmlFile, binFile)
      \<and> length xmlFile < 2 ^ 64 \<and> length binFile < 2 ^ 64"
  then have "export_model serialize M []
      = Inr (u64_bytes (of_nat (length xmlFile)) @ xmlFile
               @ u64_bytes (of_nat (length binFile)) @ binFile)"
    using export_model_frame [where serialize = serialize and cm = M and model_stream = "[]"
            and xmlFile = xmlFile and binFile = binFile]
    by simp
  moreover from a have "import_model read_model plugin
           (u64_bytes (of_nat (length xmlFile)) @ xmlFile
              @ u64_bytes (of_nat (length binFile)) @ binFile) cfg
         = (case read_model xmlFile binFile of
              Inl e \<Rightarrow> Inl e
            | Inr ov_model \<Rightarrow>
                Inr \<lparr>m_plugin = plugin, m_cfg = cfg, m_model = ov_model,
                     m_loaded_from_cache = True\<rparr>)"
    by (simp add: import_model_frame)
  ultimately show "\<exists>exported.
            export_model serialize M [] = Inr exported
            \<and> import_model read_model plugin exported cfg
                = (case read_model xmlFile binFile of
                     Inl e \<Rightarrow> Inl e
                   | Inr ov_model \<Rightarrow>
                       Inr \<lparr>m_plugin = plugin, m_cfg = cfg, m_model = ov_model,
                            m_loaded_from_cache = True\<rparr>)"
    by blast
next
  assume a: "serialize (m_model M) = Inr (xmlFile, binFile)
      \<and> length xmlFile < 2 ^ 64 \<and> length binFile < 2 ^ 64
      \<and> (\<forall>m x w. serialize m = Inr (x, w) \<longrightarrow> read_model x w = Inr m)"
  let ?frame = "u64_bytes (of_nat (length xmlFile)) @ xmlFile
                  @ u64_bytes (of_nat (length binFile)) @ binFile"
  let ?M' = "\<lparr>m_plugin = plugin, m_cfg = cfg, m_model = m_model M,
              m_loaded_from_cache = True\<rparr>"
  from a have rd: "read_model xmlFile binFile = Inr (m_model M)"
    by blast
  from a have e: "export_model serialize M [] = Inr ?frame"
    using export_model_frame [where serialize = serialize and cm = M and model_stream = "[]"
            and xmlFile = xmlFile and binFile = binFile]
    by simp
  from a have i: "import_model read_model plugin ?frame cfg = Inr ?M'"
    by (simp add: import_model_frame rd)
  have "get_runtime_model ?M' = get_runtime_model M"
    by (simp add: get_runtime_model_def)
  moreover have "\<forall>inputs. infer (get_runtime_model ?M') inputs
                    = infer (get_runtime_model M) inputs"
    by (simp add: get_runtime_model_def)
  moreover have "m_cfg ?M' = cfg"
    by simp
  moreover have "get_property keys ?M' loaded_from_cache = Inr (Any_bool True)"
    by (simp add: get_property_def key_defs)
  ultimately show "\<exists>exported M'.
            export_model serialize M [] = Inr exported
            \<and> import_model read_model plugin exported cfg = Inr M'
            \<and> get_runtime_model M' = get_runtime_model M
            \<and> (\<forall>inputs. infer (get_runtime_model M') inputs = infer (get_runtime_model M) inputs)
            \<and> m_cfg M' = cfg
            \<and> get_property keys M' loaded_from_cache = Inr (Any_bool True)"
    using e i by blast
next
  assume "CompiledModel_ctor tm model plugin' cfg' from_cache = Inr cm"
  then have "m_loaded_from_cache cm = from_cache"
    by (auto simp: CompiledModel_ctor_def split: sum.splits thrown.splits)
  then show "get_property keys cm loaded_from_cache = Inr (Any_bool from_cache)"
    by (simp add: get_property_def key_defs)
qed

theorem import_export_round_trip_witness:
  "(\<exists>exported M'.
     export_model (\<lambda>m. Inr (map (of_nat \<circ> of_char) (friendly_name m), graph m))
        \<lparr>m_plugin = \<lparr>device_name = ''TEMPLATE''\<rparr>,
         m_cfg = \<lparr>device_id = 0, streams_executor_config = \<lparr>streams = 1\<rparr>,
                  enable_profiling_flag = False, disable_transformations = False,
                  perf_mode = Latency\<rparr>,
         m_model = \<lparr>friendly_name = ''net'', graph = [7 :: byte]\<rparr>,
         m_loaded_from_cache = False\<rparr> [] = Inr exported
     \<and> exported = [3, 0, 0, 0, 0, 0, 0, 0, 110, 101, 116, 1, 0, 0, 0, 0, 0, 0, 0, 7]
     \<and> import_model (\<lambda>x w. Inr \<lparr>friendly_name = map (char_of \<circ> unat) x, graph = w\<rparr>)
          \<lparr>device_name = ''TEMPLATE''\<rparr> exported
          \<lparr>device_id = 2, streams_executor_config = \<lparr>streams = 1\<rparr>,
           enable_profiling_flag = False, disable_transformations = False,
           perf_mode = Latency\<rparr> = Inr M'
     \<and> m_model M' = \<lparr>friendly_name = ''net'', graph = [7]\<rparr>
     \<and> get_property [num_streams] M' loaded_from_cache = Inr (Any_bool True))
   \<and> get_property [num_streams]
        \<lparr>m_plugin = \<lparr>device_name = ''TEMPLATE''\<rparr>,
         m_cfg = \<lparr>device_id = 0, streams_executor_config = \<lparr>streams = 1\<rparr>,
                  enable_profiling_flag = False, disable_transformations = True,
                  perf_mode = Latency\<rparr>,
         m_model = \<lparr>friendly_name = ''net'', graph = [7 :: byte]\<rparr>,
         m_loaded_from_cache = True\<rparr> loaded_from_cache = Inr (Any_bool True)"
proof -
  let ?ser = "\<lambda>m :: bytes Model.
     (Inr (map (of_nat \<circ> of_char) (friendly_name m), graph m) :: error + bytes \<times> bytes)"
  let ?rd = "\<lambda>(x :: bytes) (w :: bytes).
     (Inr \<lparr>friendly_name = map (char_of \<circ> unat) x, graph = w\<rparr> :: error + bytes Model)"
  let ?net = "\<lparr>friendly_name = ''net'', graph = [7 :: byte]\<rparr>"
  let ?p = "\<lparr>device_name = ''TEMPLATE''\<rparr>"
  let ?M = "\<lparr>m_plugin = ?p,
       m_cfg = \<lparr>device_id = 0, streams_executor_config = \<lparr>streams = 1\<rparr>,
                enable_profiling_flag = False, disable_transformations = False,
                perf_mode = Latency\<rparr>,
       m_model = ?net, m_loaded_from_cache = False\<rparr>"
  let ?cfg = "\<lparr>device_id = 2, streams_executor_config = \<lparr>streams = 1\<rparr>,
              enable_profiling_flag = False, disable_transformations = False,
              perf_mode = Latency\<rparr>"
  let ?cfgT = "\<lparr>device_id = 0, streams_executor_config = \<lparr>streams = 1\<rparr>,
                enable_profiling_flag = False, disable_transformations = True,
                perf_mode = Latency\<rparr>"
  let ?cm = "\<lparr>m_plugin = ?p, m_cfg = ?cfgT, m_model = ?net, m_loaded_from_cache = True\<rparr>"
  let ?tm = "\<lambda>m :: bytes Model. (Inl Unknown_throw :: thrown + bytes Model)"
  let ?infer = "\<lambda>(m :: bytes Model) (inputs :: bytes). graph m @ inputs"
  have cb: "char_of (unat (of_nat (of_char c) :: byte)) = c" for c :: char
    by (simp add: unat_of_nat)
  have inv: "\<forall>m x w. ?ser m = Inr (x, w) \<longrightarrow> ?rd x w = Inr m"
    by (auto simp: comp_def cb)
  have h: "?ser (m_model ?M) = Inr ([110, 101, 116], [7])
      \<and> length [110, 101, 116 :: byte] < 2 ^ 64 \<and> length [7 :: byte] < 2 ^ 64"
    by simp
  have c: "CompiledModel_ctor ?tm ?net ?p ?cfgT True = Inr ?cm"
    by (simp add: CompiledModel_ctor_def compile_model_def)
  have u: "u64_bytes 3 = [3, 0, 0, 0, 0, 0, 0, 0]" "u64_bytes 1 = [1, 0, 0, 0, 0, 0, 0, 0]"
    by code_simp+
  have e: "export_model ?ser ?M [] = Inr [3, 0, 0, 0, 0, 0, 0, 0, 110, 101, 116, 1, 0, 0, 0, 0, 0, 0, 0, 7]"
    using export_model_frame [where serialize = ?ser and cm = ?M and model_stream = "[]"
            and xmlFile = "[110, 101, 116]" and binFile = "[7]"] u
    by simp
  note t = import_export_round_trip [where serialize = ?ser and M = ?M and read_model = ?rd
         and xmlFile = "[110, 101, 116]" and binFile = "[7]"
         and infer = ?infer and plugin = ?p and cfg = ?cfg and keys = "[num_streams]"
         and tm = ?tm and model = ?net and plugin' = ?p
         and cfg' = ?cfgT and from_cache = True and cm = ?cm]
  from t h inv obtain exported M' where
    x: "export_model ?ser ?M [] = Inr exported"
       "import_model ?rd ?p exported ?cfg = Inr M'"
       "get_runtime_model M' = get_runtime_model ?M"
       "get_property [num_streams] M' loaded_from_cache = Inr (Any_bool True)"
    by blast
  from x(1) e have "exported = [3, 0, 0, 0, 0, 0, 0, 0, 110, 101, 116, 1, 0, 0, 0, 0, 0, 0, 0, 7]"
    by simp
  moreover from x(3) have "m_model M' = ?net"
    by (simp add: get_runtime_model_def)
  moreover from t c have "get_property [num_streams] ?cm loaded_from_cache = Inr (Any_bool True)"
    by blast
  ultimately show ?thesis
    using x(1,2,4) by blast
qed

subsection \<open>Frozen configuration\<close>

text \<open>
  C4. For every compiled model and every map of properties, \<open>set_property\<close> fails with
  \<open>NotImplemented\<close>, and the object it leaves behind is the one it was given: the
  configuration, the graph and every other field are unchanged.
\<close>

theorem set_property_not_implemented:
  "set_property cm properties = (Inl NotImplemented, cm)"
  by (simp add: set_property_def)

subsection \<open>The transformation switch\<close>

text \<open>
  C5. When \<open>disable_transformations\<close> is set, \<open>compile_model\<close> returns the graph
  verbatim whatever the transformer is; when it is not set, the result is the
  transformer's result on the graph. The outcome is independent of the transformer
  exactly when the switch is set.
\<close>

theorem compile_model_skips_iff_disabled:
  "(disable_transformations cfg \<longrightarrow> compile_model tm cfg model = Inr model)
   \<and> (\<not> disable_transformations cfg \<longrightarrow> compile_model tm cfg model = tm model)
   \<and> ((\<forall>t t'. compile_model t cfg model = compile_model t' cfg model)
        \<longleftrightarrow> disable_transformations cfg)"
proof -
  have "\<not> disable_transformations cfg \<Longrightarrow>
        compile_model (\<lambda>m. Inl Unknown_throw) cfg model \<noteq> compile_model Inr cfg model"
    by (simp add: compile_model_def)
  then show ?thesis
    by (auto simp: compile_model_def)
qed

theorem compile_model_skips_iff_disabled_witness:
  "compile_model (\<lambda>m. Inl (Std_exception ''pass failed''))
      \<lparr>device_id = 0, streams_executor_config = \<lparr>streams = 1\<rparr>, enable_profiling_flag = False,
       disable_transformations = True, perf_mode = Latency\<rparr>
      \<lparr>friendly_name = ''net'', graph = [1::nat, 2]\<rparr>
     = Inr \<lparr>friendly_name = ''net'', graph = [1, 2]\<rparr>
   \<and> compile_model (\<lambda>m. Inl (Std_exception ''pass failed''))
      \<lparr>device_id = 0, streams_executor_config = \<lparr>streams = 1\<rparr>, enable_profiling_flag = False,
       disable_transformations = False, perf_mode = Latency\<rparr>
      \<lparr>friendly_name = ''net'', graph = [1::nat, 2]\<rparr>
     = Inl (Std_exception ''pass failed'')"
  using compile_model_skips_iff_disabled
          [of "\<lparr>device_id = 0, streams_executor_config = \<lparr>streams = 1\<rparr>,
                enable_profiling_flag = False, disable_transformations = True,
                perf_mode = Latency\<rparr>"
              "\<lambda>m. Inl (Std_exception ''pass failed'')"
              "\<lparr>friendly_name = ''net'', graph = [1::nat, 2]\<rparr>"]
        compile_model_skips_iff_disabled
          [of "\<lparr>device_id = 0, streams_executor_config = \<lparr>streams = 1\<rparr>,
                enable_profiling_flag = False, disable_transformations = False,
                perf_mode = Latency\<rparr>"
              "\<lambda>m. Inl (Std_exception ''pass failed'')"
              "\<lparr>friendly_name = ''net'', graph = [1::nat, 2]\<rparr>"]
  by simp

subsection \<open>The compile boundary\<close>

text \<open>
  C2. Whatever the compilation throws (a legacy exception, a standard exception, or
  anything else), the constructor fails with the one kind \<open>Exception\<close>, carrying a
  message built from the cause. The constructor fails with nothing but \<open>Exception\<close>,
  and only when the compilation failed; when it returns an object, the compilation
  succeeded and the object holds the compiled graph and the arguments it was given.
\<close>

theorem ctor_failure_is_uniform:
  "(compile_model tm cfg model = Inl t \<longrightarrow>
      CompiledModel_ctor tm model plugin cfg from_cache
        = Inl (Exception
            (case t of
               IE_Exception what \<Rightarrow> what
             | Std_exception what \<Rightarrow> ''Standard exception from compilation library: '' @ what
             | Unknown_throw \<Rightarrow> ''Generic exception is thrown'')))
   \<and> (CompiledModel_ctor tm model plugin cfg from_cache = Inl e \<longrightarrow>
        (\<exists>msg. e = Exception msg) \<and> (\<exists>t'. compile_model tm cfg model = Inl t'))
   \<and> (CompiledModel_ctor tm model plugin cfg from_cache = Inr cm \<longrightarrow>
        compile_model tm cfg model = Inr (m_model cm) \<and> m_cfg cm = cfg
        \<and> m_plugin cm = plugin \<and> m_loaded_from_cache cm = from_cache)"
  by (cases "compile_model tm cfg model"; cases t)
     (auto simp: CompiledModel_ctor_def split: thrown.splits)

theorem ctor_failure_is_uniform_witness:
  "compile_model (\<lambda>m. Inl (Std_exception ''pass failed''))
      \<lparr>device_id = 0, streams_executor_config = \<lparr>streams = 1\<rparr>, enable_profiling_flag = False,
       disable_transformations = False, perf_mode = Latency\<rparr>
      \<lparr>friendly_name = ''net'', graph = [1::nat, 2]\<rparr>
     = Inl (Std_exception ''pass failed'')
   \<and> CompiledModel_ctor (\<lambda>m. Inl (Std_exception ''pass failed''))
      \<lparr>friendly_name = ''net'', graph = [1::nat, 2]\<rparr> \<lparr>device_name = ''TEMPLATE''\<rparr>
      \<lparr>device_id = 0, streams_executor_config = \<lparr>streams = 1\<rparr>, enable_profiling_flag = False,
       disable_transformations = False, perf_mode = Latency\<rparr> False
     = Inl (Exception ''Standard exception from compilation library: pass failed'')"
proof -
  let ?tm = "\<lambda>m :: nat list Model. (Inl (Std_exception ''pass failed'') :: thrown + nat list Model)"
  let ?cfg = "\<lparr>device_id = 0, streams_executor_config = \<lparr>streams = 1\<rparr>,
               enable_profiling_flag = False, disable_transformations = False,
               perf_mode = Latency\<rparr>"
  let ?model = "\<lparr>friendly_name = ''net'', graph = [1::nat, 2]\<rparr>"
  have c: "compile_model ?tm ?cfg ?model = Inl (Std_exception ''pass failed'')"
    by (simp add: compile_model_def)
  with ctor_failure_is_uniform [of ?tm ?cfg ?model "Std_exception ''pass failed''"
         "\<lparr>device_name = ''TEMPLATE''\<rparr>" False]
  show ?thesis
    by simp
qed

subsection \<open>Property queries\<close>

text \<open>
  C7, as amended. For every compiled model, the \<open>optimal_number_of_infer_requests\<close>
  property is the configuration's stream count converted from \<^verbatim>\<open>int\<close> to
  \<^verbatim>\<open>unsigned int\<close>: the same 32 bits, read as the stream count modulo \<open>2^32\<close>, which
  is the stream count itself whenever that count is not negative.
\<close>

theorem optimal_number_is_converted_stream_count:
  "get_property keys cm optimal_number_of_infer_requests
     = Inr (Any_uint (streams (streams_executor_config (m_cfg cm))))
   \<and> uint (streams (streams_executor_config (m_cfg cm)))
       = sint (streams (streams_executor_config (m_cfg cm))) mod 2 ^ 32
   \<and> (0 \<le> sint (streams (streams_executor_config (m_cfg cm))) \<longrightarrow>
        uint (streams (streams_executor_config (m_cfg cm)))
          = sint (streams (streams_executor_config (m_cfg cm))))"
proof -
  have m: "uint w = sint w mod 2 ^ 32" for w :: "32 word"
    using uint_sint [of w] by (simp add: take_bit_eq_mod)
  have "uint w = sint w" if "0 \<le> sint w" for w :: "32 word"
  proof -
    have "sint w < 2 ^ 32"
      using sint_lt [of w] by simp
    with that show ?thesis
      by (simp add: m)
  qed
  with m show ?thesis
    by (simp add: get_property_def key_defs)
qed

theorem optimal_number_is_converted_stream_count_witness:
  "get_property [num_streams]
      \<lparr>m_plugin = \<lparr>device_name = ''TEMPLATE''\<rparr>,
       m_cfg = \<lparr>device_id = 0, streams_executor_config = \<lparr>streams = 4\<rparr>,
                enable_profiling_flag = False, disable_transformations = False,
                perf_mode = Latency\<rparr>,
       m_model = \<lparr>friendly_name = ''net'', graph = [60::nat, 47, 62]\<rparr>,
       m_loaded_from_cache = False\<rparr> optimal_number_of_infer_requests
     = Inr (Any_uint 4)
   \<and> (0::int) \<le> sint (4 :: 32 word) \<and> uint (4 :: 32 word) = sint (4 :: 32 word)"
  using optimal_number_is_converted_stream_count [of "[num_streams]"
      "\<lparr>m_plugin = \<lparr>device_name = ''TEMPLATE''\<rparr>,
       m_cfg = \<lparr>device_id = 0, streams_executor_config = \<lparr>streams = 4\<rparr>,
                enable_profiling_flag = False, disable_transformations = False,
                perf_mode = Latency\<rparr>,
       m_model = \<lparr>friendly_name = ''net'', graph = [60::nat, 47, 62]\<rparr>,
       m_loaded_from_cache = False\<rparr>"]
  by simp

text \<open>
  The claim as first stated fails at a stream count of \<open>-1\<close>: the property is then
  \<open>4294967295\<close>, not the stream count.
\<close>

theorem optimal_number_counterexample:
  "get_property [num_streams]
      \<lparr>m_plugin = \<lparr>device_name = ''TEMPLATE''\<rparr>,
       m_cfg = \<lparr>device_id = 0, streams_executor_config = \<lparr>streams = - 1\<rparr>,
                enable_profiling_flag = False, disable_transformations = False,
                perf_mode = Latency\<rparr>,
       m_model = \<lparr>friendly_name = ''net'', graph = [60::nat, 47, 62]\<rparr>,
       m_loaded_from_cache = False\<rparr> optimal_number_of_infer_requests
     = Inr (Any_uint 4294967295)
   \<and> uint (4294967295 :: 32 word) = 4294967295
   \<and> sint (- 1 :: 32 word) = - 1
   \<and> uint (4294967295 :: 32 word) \<noteq> sint (- 1 :: 32 word)"
  by (simp add: get_property_def key_defs)

text \<open>
  C10. For every compiled model, the \<open>execution_devices\<close> property is a list of exactly
  one entry: the plugin's device name, a dot, and the configured device id written by
  \<^verbatim>\<open>std::to_string\<close>, whose digits read back as that device id.
\<close>

theorem execution_devices_single_entry:
  "get_property keys cm execution_devices
     = Inr (Any_strings
         [get_device_name (m_plugin cm) @ ''.'' @ to_string (sint (device_id (m_cfg cm)))])
   \<and> decimal_int (to_string (sint (device_id (m_cfg cm)))) = sint (device_id (m_cfg cm))"
  by (simp add: get_property_def key_defs decimal_int_to_string)

theorem execution_devices_single_entry_witness:
  "get_property [num_streams]
      \<lparr>m_plugin = \<lparr>device_name = ''TEMPLATE''\<rparr>,
       m_cfg = \<lparr>device_id = 12, streams_executor_config = \<lparr>streams = 4\<rparr>,
                enable_profiling_flag = False, disable_transformations = False,
                perf_mode = Latency\<rparr>,
       m_model = \<lparr>friendly_name = ''net'', graph = [60::nat, 47, 62]\<rparr>,
       m_loaded_from_cache = False\<rparr> execution_devices
     = Inr (Any_strings [''TEMPLATE.12''])"
proof -
  have "to_string 12 = ''12''"
    by (simp add: to_string_def to_string_nat.simps [of 12] to_string_nat.simps [of "Suc 0"]
          digit_char_def)
  with execution_devices_single_entry [of "[num_streams]"
      "\<lparr>m_plugin = \<lparr>device_name = ''TEMPLATE''\<rparr>,
       m_cfg = \<lparr>device_id = 12, streams_executor_config = \<lparr>streams = 4\<rparr>,
                enable_profiling_flag = False, disable_transformations = False,
                perf_mode = Latency\<rparr>,
       m_model = \<lparr>friendly_name = ''net'', graph = [60::nat, 47, 62]\<rparr>,
       m_loaded_from_cache = False\<rparr>"]
  show ?thesis
    by (simp add: get_device_name_def)
qed

text \<open>
  C9. \<open>get_property\<close> answers the two legacy metric keys itself, whatever the
  configuration holds: \<open>SUPPORTED_METRICS\<close> with the five read-only keys followed by the
  two metric keys, \<open>SUPPORTED_CONFIG_KEYS\<close> with the two read-write keys followed by the
  stream executor's keys. Neither answer is \<open>NotFound\<close>, and neither key is one of the
  five read-only keys.
\<close>

theorem legacy_metric_keys_answered:
  "get_property keys cm SUPPORTED_METRICS
     = Inr (Any_strings (to_string_vector default_ro_properties
                          @ [SUPPORTED_METRICS, SUPPORTED_CONFIG_KEYS]))
   \<and> get_property keys cm SUPPORTED_CONFIG_KEYS
     = Inr (Any_strings (to_string_vector default_rw_properties @ keys))
   \<and> get_property keys cm SUPPORTED_METRICS \<noteq> Inl NotFound
   \<and> get_property keys cm SUPPORTED_CONFIG_KEYS \<noteq> Inl NotFound
   \<and> SUPPORTED_METRICS \<notin> set (to_string_vector default_ro_properties)
   \<and> SUPPORTED_CONFIG_KEYS \<notin> set (to_string_vector default_ro_properties)"
  by (simp add: get_property_def key_defs to_string_vector_def add_ro_properties_def
        default_ro_properties_def default_rw_properties_def comp_def)

text \<open>
  C8, as amended. For every compiled model and whatever keys the stream executor
  reports, the \<open>supported_properties\<close> property is exactly the five read-only keys
  followed by the two read-write keys \<open>device_id\<close> and \<open>enable_profiling\<close>, seven entries
  each with its mutability; the stream executor's keys are not added to it.
\<close>

theorem supported_properties_ro_rw:
  "get_property keys cm supported_properties
     = Inr (Any_properties
         [(model_name, RO), (supported_properties, RO), (execution_devices, RO),
          (loaded_from_cache, RO), (optimal_number_of_infer_requests, RO),
          (device_id_key, RW), (enable_profiling, RW)])"
  by (simp add: get_property_def key_defs default_ro_properties_def default_rw_properties_def)

text \<open>
  The claim as first stated fails: with \<open>num_streams\<close> as the stream executor's only key,
  the answer is the seven keys above and \<open>num_streams\<close> is not among them.
\<close>

theorem supported_properties_counterexample:
  "get_property [num_streams]
      \<lparr>m_plugin = \<lparr>device_name = ''TEMPLATE''\<rparr>,
       m_cfg = \<lparr>device_id = 0, streams_executor_config = \<lparr>streams = 1\<rparr>,
                enable_profiling_flag = False, disable_transformations = False,
                perf_mode = Latency\<rparr>,
       m_model = \<lparr>friendly_name = ''net'', graph = [1::nat, 2]\<rparr>,
       m_loaded_from_cache = False\<rparr> supported_properties
     = Inr (Any_properties
         [(model_name, RO), (supported_properties, RO), (execution_devices, RO),
          (loaded_from_cache, RO), (optimal_number_of_infer_requests, RO),
          (device_id_key, RW), (enable_profiling, RW)])
   \<and> num_streams \<notin> set (to_string_vector
         [(model_name, RO), (supported_properties, RO), (execution_devices, RO),
          (loaded_from_cache, RO), (optimal_number_of_infer_requests, RO),
          (device_id_key, RW), (enable_profiling, RW)])
   \<and> get_property [num_streams]
      \<lparr>m_plugin = \<lparr>device_name = ''TEMPLATE''\<rparr>,
       m_cfg = \<lparr>device_id = 0, streams_executor_config = \<lparr>streams = 1\<rparr>,
                enable_profiling_flag = False, disable_transformations = False,
                perf_mode = Latency\<rparr>,
       m_model = \<lparr>friendly_name = ''net'', graph = [1::nat, 2]\<rparr>,
       m_loaded_from_cache = False\<rparr> supported_properties
     \<noteq> Inr (Any_properties
         (default_ro_properties @ default_rw_properties @ [(num_streams, RW)]))"
  by (simp add: get_property_def key_defs default_ro_properties_def default_rw_properties_def
        to_string_vector_def)

text \<open>
  C6, as amended. For every compiled model and every name that is none of the five
  read-only keys, neither of the two legacy metric keys, and not a key of the
  configuration, \<open>get_property\<close> hands the name to the configuration's lookup, and the
  result is \<open>NotFound\<close>.
\<close>

theorem unknown_property_not_found:
  assumes "name \<notin> set (to_string_vector default_ro_properties)"
    and "name \<noteq> SUPPORTED_METRICS" and "name \<noteq> SUPPORTED_CONFIG_KEYS"
    and "name \<notin> set config_keys"
  shows "get_property keys cm name = Get (m_cfg cm) name
         \<and> get_property keys cm name = Inl NotFound"
proof -
  from assms(1) have ro: "name \<noteq> model_name" "name \<noteq> supported_properties"
    "name \<noteq> execution_devices" "name \<noteq> loaded_from_cache"
    "name \<noteq> optimal_number_of_infer_requests"
    by (simp_all add: to_string_vector_def default_ro_properties_def)
  from assms(4) have cf: "name \<noteq> device_id_key" "name \<noteq> num_streams" "name \<noteq> enable_profiling"
    "name \<noteq> disable_transformations_key" "name \<noteq> perf_mode_key"
    by (simp_all add: config_keys_def)
  have d: "get_property keys cm name = Get (m_cfg cm) name"
    using ro assms(2,3) by (auto simp: get_property_def)
  have "Get (m_cfg cm) name = Inl NotFound"
    using cf by (simp add: Get_def)
  with d show ?thesis by simp
qed

theorem unknown_property_not_found_witness:
  "get_property [num_streams]
      \<lparr>m_plugin = \<lparr>device_name = ''TEMPLATE''\<rparr>,
       m_cfg = \<lparr>device_id = 0, streams_executor_config = \<lparr>streams = 1\<rparr>,
                enable_profiling_flag = False, disable_transformations = False,
                perf_mode = Latency\<rparr>,
       m_model = \<lparr>friendly_name = ''net'', graph = [1::nat, 2]\<rparr>,
       m_loaded_from_cache = False\<rparr> ''nonexistent_key_xyz'' = Inl NotFound"
proof -
  have ro: "''nonexistent_key_xyz'' \<notin> set (to_string_vector default_ro_properties)"
    by (simp add: to_string_vector_def default_ro_properties_def key_defs)
  have m: "''nonexistent_key_xyz'' \<noteq> SUPPORTED_METRICS"
    and c: "''nonexistent_key_xyz'' \<noteq> SUPPORTED_CONFIG_KEYS"
    by (simp_all add: key_defs)
  have cf: "''nonexistent_key_xyz'' \<notin> set config_keys"
    by (simp add: config_keys_def key_defs)
  from unknown_property_not_found [OF ro m c cf] show ?thesis
    by blast
qed

text \<open>
  The claim as first stated fails at the name \<open>SUPPORTED_METRICS\<close>: it is none of the
  five read-only keys and not a key of the configuration, yet the answer is a list of
  keys, not \<open>NotFound\<close>.
\<close>

theorem unknown_property_counterexample:
  "SUPPORTED_METRICS \<notin> set (to_string_vector default_ro_properties)
   \<and> SUPPORTED_METRICS \<notin> set config_keys
   \<and> get_property [num_streams]
      \<lparr>m_plugin = \<lparr>device_name = ''TEMPLATE''\<rparr>,
       m_cfg = \<lparr>device_id = 0, streams_executor_config = \<lparr>streams = 1\<rparr>,
                enable_profiling_flag = False, disable_transformations = False,
                perf_mode = Latency\<rparr>,
       m_model = \<lparr>friendly_name = ''net'', graph = [1::nat, 2]\<rparr>,
       m_loaded_from_cache = False\<rparr> SUPPORTED_METRICS
     = Inr (Any_strings [model_name, supported_properties, execution_devices, loaded_from_cache,
             optimal_number_of_infer_requests, SUPPORTED_METRICS, SUPPORTED_CONFIG_KEYS])
   \<and> get_property [num_streams]
      \<lparr>m_plugin = \<lparr>device_name = ''TEMPLATE''\<rparr>,
       m_cfg = \<lparr>device_id = 0, streams_executor_config = \<lparr>streams = 1\<rparr>,
                enable_profiling_flag = False, disable_transformations = False,
                perf_mode = Latency\<rparr>,
       m_model = \<lparr>friendly_name = ''net'', graph = [1::nat, 2]\<rparr>,
       m_loaded_from_cache = False\<rparr> SUPPORTED_METRICS
     \<noteq> Inl NotFound"
  by (simp add: get_property_def key_defs default_ro_properties_def config_keys_def
        to_string_vector_def add_ro_properties_def)

end
